theory Spec2Isabelle
  imports Complex_Main
begin

section \<open>JavaScript values\<close>

text \<open>
  The client is an ECMAScript module. Its values are modelled as trees: an object or an
  array carries the identity of the reference (a natural number) beside its own
  enumerable properties, because \<open>===\<close> on two objects compares references. Numbers are
  IEEE doubles; only their equality matters here, so a finite number is a rational and
  the three special values are constructors (\<open>NaN\<close> is the only number that is not
  \<open>===\<close> to itself). Cyclic structures are not values of this type.
\<close>

datatype jsnum = Fin rat | PosInf | NegInf | NaN

datatype jsval =
    JUndefined
  | JNull
  | JBool bool
  | JNum jsnum
  | JStr string
  | JObj nat "(string \<times> jsval) list"
  | JArr nat "jsval list"
  | JFun nat

text \<open>Errors thrown by the module: \<open>new Error(msg)\<close> of the source, and the
  \<open>TypeError\<close> the language itself raises (calling a value that is not a function,
  assigning to a \<open>const\<close> binding).\<close>

datatype error = Error string | TypeError string

fun typeof :: "jsval \<Rightarrow> string" where
  "typeof JUndefined = ''undefined''"
| "typeof JNull = ''object''"
| "typeof (JBool b) = ''boolean''"
| "typeof (JNum n) = ''number''"
| "typeof (JStr s) = ''string''"
| "typeof (JObj a ps) = ''object''"
| "typeof (JArr a xs) = ''object''"
| "typeof (JFun a) = ''function''"

text \<open>\<open>!v\<close> is \<open>\<not> truthy v\<close>.\<close>

fun truthy :: "jsval \<Rightarrow> bool" where
  "truthy JUndefined = False"
| "truthy JNull = False"
| "truthy (JBool b) = b"
| "truthy (JNum n) = (n \<noteq> NaN \<and> n \<noteq> Fin 0)"
| "truthy (JStr s) = (s \<noteq> [])"
| "truthy (JObj a ps) = True"
| "truthy (JArr a xs) = True"
| "truthy (JFun a) = True"

text \<open>\<open>a === b\<close>: primitives by value (\<open>NaN\<close> excepted), references by identity.\<close>

fun strict_eq :: "jsval \<Rightarrow> jsval \<Rightarrow> bool" where
  "strict_eq JUndefined JUndefined = True"
| "strict_eq JNull JNull = True"
| "strict_eq (JBool a) (JBool b) = (a = b)"
| "strict_eq (JNum a) (JNum b) = (a = b \<and> a \<noteq> NaN)"
| "strict_eq (JStr a) (JStr b) = (a = b)"
| "strict_eq (JObj a ps) (JObj b qs) = (a = b)"
| "strict_eq (JArr a xs) (JArr b ys) = (a = b)"
| "strict_eq (JFun a) (JFun b) = (a = b)"
| "strict_eq _ _ = False"

text \<open>Decimal rendering of an array index, as \<open>Object.keys\<close> reports it.\<close>

definition digit_char :: "nat \<Rightarrow> char" where
  "digit_char n = ''0123456789'' ! n"

fun show_nat :: "nat \<Rightarrow> string" where
  "show_nat n = (if n < 10 then [digit_char n] else show_nat (n div 10) @ [digit_char (n mod 10)])"

text \<open>The own enumerable properties of a value of type \<open>object\<close>, in the order
  \<open>Object.keys\<close> lists them: the stored properties of a plain object, the indices of an
  array.\<close>

fun own_entries :: "jsval \<Rightarrow> (string \<times> jsval) list" where
  "own_entries (JObj a ps) = ps"
| "own_entries (JArr a xs) = zip (map show_nat [0..<length xs]) xs"
| "own_entries _ = []"

definition object_keys :: "jsval \<Rightarrow> string list" where
  "object_keys v = map fst (own_entries v)"

text \<open>\<open>obj[key]\<close> for an own property; a missing property reads as \<open>undefined\<close>.\<close>

definition get_prop :: "jsval \<Rightarrow> string \<Rightarrow> jsval" where
  "get_prop v key = (case map_of (own_entries v) key of Some x \<Rightarrow> x | None \<Rightarrow> JUndefined)"

section \<open>Deep equality: \<open>funcs.prototype._valueEqual\<close>\<close>

text \<open>
  The method body, line for line: identity first; then anything that is falsy or not of
  type \<open>object\<close> is compared with \<open>===\<close>; two objects are compared by the number of
  their keys and, for each key of the first, membership in the keys of the second and the
  recursive equality of the two property values. The \<open>for\<close> loop returns \<open>false\<close> at the
  first key that fails, which is \<open>list_all\<close> over the keys in order. Nothing looks at the
  kind of the object (array or plain object).
\<close>

function valueEqual :: "jsval \<Rightarrow> jsval \<Rightarrow> bool" where
  "valueEqual obj1 obj2 =
    (if strict_eq obj1 obj2 then True
     else if \<not> truthy obj1 \<or> \<not> truthy obj2 \<or> typeof obj1 \<noteq> ''object'' \<or> typeof obj2 \<noteq> ''object''
       then strict_eq obj1 obj2
     else let keys1 = object_keys obj1; keys2 = object_keys obj2 in
       if length keys1 \<noteq> length keys2 then False
       else list_all (\<lambda>key. key \<in> set keys2 \<and> valueEqual (get_prop obj1 key) (get_prop obj2 key)) keys1)"
  by pat_completeness auto
termination
proof -
  have size_entry_obj: "size x < size (JObj a ps)" if "(k, x) \<in> set ps" for k x a ps
    using that by (induction ps) auto
  have size_elem_arr: "size x < size (JArr a xs)" if "x \<in> set xs" for x a xs
    using that by (induction xs) auto
  have size_get_prop: "size (get_prop v key) < size v" if "key \<in> set (object_keys v)" for v key
  proof -
    from that have "map_of (own_entries v) key \<noteq> None"
      unfolding object_keys_def by (simp add: map_of_eq_None_iff)
    then obtain x where m: "map_of (own_entries v) key = Some x"
      by blast
    then have mem: "(key, x) \<in> set (own_entries v)"
      by (rule map_of_SomeD)
    have "size x < size v"
    proof (cases v)
      case (JObj a ps)
      with mem have "(key, x) \<in> set ps" by simp
      then have "size x < size (JObj a ps)" by (rule size_entry_obj)
      then show ?thesis unfolding JObj .
    next
      case (JArr a xs)
      with mem have "x \<in> set xs" by (auto dest: set_zip_rightD)
      then have "size x < size (JArr a xs)" by (rule size_elem_arr)
      then show ?thesis unfolding JArr .
    qed (use mem in auto)
    with m show ?thesis by (simp add: get_prop_def)
  qed
  show ?thesis
    by (relation "measure (\<lambda>(obj1, obj2). size obj1)") (auto simp: size_get_prop)
qed

declare valueEqual.simps [simp del]

section \<open>Plain objects used as dictionaries\<close>

text \<open>
  \<open>this.listeners = {}\<close> and \<open>this.data = {}\<close> are ordinary objects, so a read
  \<open>obj[name]\<close> that finds no own property continues along the prototype chain to
  \<open>Object.prototype\<close>. For the names below the read yields a built-in (a function, or
  \<open>Object.prototype\<close> itself for \<open>__proto__\<close>): a truthy value that has none of the
  array methods \<open>includes\<close>, \<open>push\<close>, \<open>indexOf\<close>, \<open>splice\<close>, \<open>forEach\<close>. The own
  properties are a map; a read returns a slot that tells the three cases apart.
\<close>

definition object_prototype_names :: "string list" where
  "object_prototype_names =
    [''constructor'', ''__proto__'', ''hasOwnProperty'', ''isPrototypeOf'',
     ''propertyIsEnumerable'', ''toLocaleString'', ''toString'', ''valueOf'',
     ''__defineGetter__'', ''__defineSetter__'', ''__lookupGetter__'', ''__lookupSetter__'']"

datatype 'a slot = Own 'a | Inherited | Missing

definition read_slot :: "(string \<rightharpoonup> 'a) \<Rightarrow> string \<Rightarrow> 'a slot" where
  "read_slot m name =
    (case m name of
       Some v \<Rightarrow> Own v
     | None \<Rightarrow> if name \<in> set object_prototype_names then Inherited else Missing)"

section \<open>Class \<open>funcs\<close>: where its methods live\<close>

text \<open>
  \<open>class funcs\<close> declares \<open>_valueEqual\<close>, \<open>_parseXML\<close>, \<open>_handleResponses\<close> and
  \<open>_fetchData\<close> without \<open>static\<close>: they are properties of \<open>funcs.prototype\<close>, reached
  through an instance. The class object \<open>funcs\<close> itself has no member of these names, and
  no instance of \<open>funcs\<close> is ever created. \<open>PBUIState\<close> calls \<open>funcs._valueEqual(...)\<close>
  and \<open>funcs._fetchData(...)\<close> on the class object: the property read gives
  \<open>undefined\<close> and the call raises a \<open>TypeError\<close>.
\<close>

definition funcs_instance_members :: "string list" where
  "funcs_instance_members = [''_valueEqual'', ''_parseXML'', ''_handleResponses'', ''_fetchData'']"

definition funcs_static_members :: "string list" where
  "funcs_static_members = []"

definition not_a_function :: "string \<Rightarrow> error" where
  "not_a_function name = TypeError (name @ '' is not a function'')"

section \<open>The state cache: \<open>PBUIState\<close>\<close>

text \<open>\<open>data\<close> and \<open>cache_listeners\<close> are the fields \<open>this.data\<close> and \<open>this.listeners\<close> of
  \<open>PBUIState\<close> (the second is renamed: the client has a field \<open>listeners\<close> of its own). A
  change listener is a caller's function, known by its reference.\<close>

record PBUIState =
  data :: "string \<rightharpoonup> jsval"
  cache_listeners :: "string \<rightharpoonup> nat list"

text \<open>\<open>this.data[key]\<close>: the stored value, \<open>undefined\<close>, or a built-in of
  \<open>Object.prototype\<close> (function references below 12 stand for its methods, in the order
  of \<open>object_prototype_names\<close>; \<open>__proto__\<close> reads the prototype object, reference 0).\<close>

definition read_data :: "PBUIState \<Rightarrow> string \<Rightarrow> jsval" where
  "read_data st key =
    (case read_slot (data st) key of
       Own v \<Rightarrow> v
     | Missing \<Rightarrow> JUndefined
     | Inherited \<Rightarrow> if key = ''__proto__'' then JObj 0 []
                    else JFun (length (takeWhile (\<lambda>n. n \<noteq> key) object_prototype_names)))"

text \<open>What a call does: its result, the state it leaves, and the listener invocations
  \<open>callback(value)\<close> it made, in order.\<close>

type_synonym fired = "(nat \<times> jsval) list"

text \<open>The statements of \<open>_internalUpdate\<close> once the equality function has been obtained.
  (Storing under the key \<open>__proto__\<close> would go to the prototype setter; the lemmas about
  this function leave the inherited names out.)\<close>

definition internalUpdate_body ::
  "(jsval \<Rightarrow> jsval \<Rightarrow> bool) \<Rightarrow> string \<Rightarrow> jsval \<Rightarrow> PBUIState \<Rightarrow> (error + unit) \<times> PBUIState \<times> fired" where
  "internalUpdate_body equal key val st =
    (if \<not> equal (read_data st key) val then
       let st' = st\<lparr>data := (data st)(key \<mapsto> val)\<rparr> in
       (case read_slot (cache_listeners st') key of
          Own cbs \<Rightarrow> (Inr (), st', map (\<lambda>callback. (callback, val)) cbs)
        | Inherited \<Rightarrow> (Inl (not_a_function ''this.listeners[key].forEach''), st', [])
        | Missing \<Rightarrow> (Inr (), st', []))
     else (Inr (), st, []))"

text \<open>\<open>_internalUpdate(key, value)\<close> as written: the condition evaluates
  \<open>funcs._valueEqual(this.data[key], value)\<close>, a call on the class object.\<close>

definition internalUpdate :: "string \<Rightarrow> jsval \<Rightarrow> PBUIState \<Rightarrow> (error + unit) \<times> PBUIState \<times> fired" where
  "internalUpdate key val st =
    (if ''_valueEqual'' \<in> set funcs_static_members
     then internalUpdate_body valueEqual key val st
     else (Inl (not_a_function ''funcs._valueEqual''), st, []))"

text \<open>
  \<open>update(songStates, currentFlowStep)\<close>. The REST collaborator is a parameter: \<open>rest
  endpoint method body\<close> is what \<open>_fetchData(endpoint, method, body)\<close> would deliver (the
  decoded response, or the error it throws). The second component of the result lists the
  requests the call has issued.
\<close>

type_synonym request = "string \<times> string \<times> jsval option"

definition update ::
  "(string \<Rightarrow> string \<Rightarrow> jsval option \<Rightarrow> error + jsval) \<Rightarrow> jsval \<Rightarrow> jsval \<Rightarrow> (error + bool) \<times> request list" where
  "update rest songStates currentFlowStep =
    (if typeof songStates \<noteq> ''object'' \<or> strict_eq songStates JNull then
       (Inl (Error ''[PBUI] Invalid songStates: Must be an object.''), [])
     else if length (object_keys songStates) = 0 then
       (Inl (Error ''[PBUI] songStates should not be empty.''), [])
     else if typeof currentFlowStep \<noteq> ''number'' \<or> currentFlowStep = JNum NaN then
       (Inl (Error ''[PBUI] Invalid flowStep: Must be a number.''), [])
     else
       let body = JObj 0 [(''song_states'', songStates), (''current_flow_step'', currentFlowStep)] in
       if ''_fetchData'' \<in> set funcs_static_members then
         (case rest ''/update'' ''POST'' (Some body) of
            Inl e \<Rightarrow> (Inl e, [(''/update'', ''POST'', Some body)])
          | Inr d \<Rightarrow>
              (if d = JUndefined \<or> d = JNull
               then Inl (TypeError ''Cannot read properties of undefined'')
               else Inr (truthy (get_prop d ''success'')),
               [(''/update'', ''POST'', Some body)]))
       else (Inl (not_a_function ''funcs._fetchData''), []))"

text \<open>The three errors \<open>update\<close> raises about its arguments.\<close>

definition validation_errors :: "error set" where
  "validation_errors =
    {Error ''[PBUI] Invalid songStates: Must be an object.'',
     Error ''[PBUI] songStates should not be empty.'',
     Error ''[PBUI] Invalid flowStep: Must be a number.''}"

definition is_validation_error :: "error + bool \<Rightarrow> bool" where
  "is_validation_error r = (case r of Inl e \<Rightarrow> e \<in> validation_errors | Inr b \<Rightarrow> False)"

section \<open>The client: \<open>PBUI\<close>\<close>

subsection \<open>State\<close>

text \<open>
  A promise is pending, fulfilled or rejected; the client's promises live in a store and
  are named by their index. The closures the source registers on a socket are the
  constructors of \<open>handler\<close>; the ones registered with \<open>once\<close> carry the promise their
  \<open>resolve\<close> or \<open>reject\<close> settles.
\<close>

datatype pstate = Pending | Fulfilled | Rejected error

datatype handler =
    OnceConnect nat
  | OnceConnectError nat
  | OnDisconnect
  | OnInitialState
  | OnStateUpdated
  | OnceDisconnect nat
  | Callback nat

text \<open>A socket of the transport library (socket.io-client), as far as the client uses it:
  the \<open>connected\<close> flag and the handlers registered on it, in registration order.\<close>

record sock =
  connected :: bool
  handlers :: "(string \<times> handler) list"

text \<open>
  The fields of \<open>PBUI\<close> (those the connection machinery uses), and beside them what the
  module and the environment hold: \<open>sockets\<close> is the store of socket objects created by
  \<open>io(...)\<close>, \<open>socket\<close> the reference \<open>this.socket\<close> into it (\<open>None\<close> is \<open>null\<close>);
  \<open>heartbeatInterval\<close> tells whether the interval timer is set; \<open>apiUrl\<close> is the module
  variable; \<open>timers\<close> are the delays of the \<open>setTimeout\<close> calls of \<open>_reconnect\<close>, in order
  (each callback calls \<open>connect(apiUrl)\<close>); \<open>console\<close> is what was logged; \<open>invoked\<close> the
  calls made to listeners and callbacks of the caller; \<open>emitted\<close> what \<open>send\<close> handed to a
  socket.
\<close>

record client =
  sockets :: "sock list"
  socket :: "nat option"
  listeners :: "string \<rightharpoonup> nat list"
  reconnectionAttempts :: nat
  heartbeatInterval :: bool
  connecting :: bool
  promises :: "pstate list"
  connectionPromise :: "nat option"
  manualDisconnect :: bool
  apiUrl :: string
  timers :: "nat list"
  console :: "string list"
  invoked :: "(nat \<times> jsval) list"
  emitted :: "(nat \<times> string \<times> jsval) list"

text \<open>The constructor, and line 4 of the module.\<close>

definition new_PBUI :: client where
  "new_PBUI =
    \<lparr>sockets = [], socket = None, listeners = Map.empty, reconnectionAttempts = 0,
     heartbeatInterval = False, connecting = False, promises = [],
     connectionPromise = None, manualDisconnect = False,
     apiUrl = ''https://api.ultraslayyy.xyz/api'', timers = [], console = [],
     invoked = [], emitted = []\<rparr>"

definition console_log :: "string \<Rightarrow> client \<Rightarrow> client" where
  "console_log msg st = st\<lparr>console := console st @ [msg]\<rparr>"

subsection \<open>Promises and sockets\<close>

definition new_promise :: "client \<Rightarrow> nat \<times> client" where
  "new_promise st = (length (promises st), st\<lparr>promises := promises st @ [Pending]\<rparr>)"

definition promise_state :: "client \<Rightarrow> nat \<Rightarrow> pstate" where
  "promise_state st pid = (if pid < length (promises st) then promises st ! pid else Pending)"

text \<open>Settling a promise that is already settled does nothing.\<close>

definition settle :: "nat \<Rightarrow> pstate \<Rightarrow> client \<Rightarrow> client" where
  "settle pid r st =
    (if promise_state st pid = Pending then st\<lparr>promises := (promises st)[pid := r]\<rparr> else st)"

text \<open>
  The transport library is not part of the repository; these are the documented effects of
  the calls the client makes. \<open>io(...)\<close> returns a new socket, not yet connected (a
  call of \<open>io\<close> that throws is not modelled).
  \<open>socket.on\<close> and \<open>socket.once\<close> append a handler. \<open>socket.off()\<close> without arguments
  removes every handler of the socket. \<open>socket.disconnect()\<close> closes the socket. The
  events the transport raises on a socket are delivered by \<open>transport_event\<close> below.
\<close>

definition upd_sock :: "nat \<Rightarrow> (sock \<Rightarrow> sock) \<Rightarrow> client \<Rightarrow> client" where
  "upd_sock sid f st =
    (if sid < length (sockets st) then st\<lparr>sockets := (sockets st)[sid := f (sockets st ! sid)]\<rparr>
     else st)"

definition io :: "client \<Rightarrow> nat \<times> client" where
  "io st = (length (sockets st), st\<lparr>sockets := sockets st @ [\<lparr>connected = False, handlers = []\<rparr>]\<rparr>)"

definition sock_on :: "nat \<Rightarrow> string \<Rightarrow> handler \<Rightarrow> client \<Rightarrow> client" where
  "sock_on sid ev h = upd_sock sid (\<lambda>s. s\<lparr>handlers := handlers s @ [(ev, h)]\<rparr>)"

definition sock_off :: "nat \<Rightarrow> client \<Rightarrow> client" where
  "sock_off sid = upd_sock sid (\<lambda>s. s\<lparr>handlers := []\<rparr>)"

definition sock_disconnect :: "nat \<Rightarrow> client \<Rightarrow> client" where
  "sock_disconnect sid = upd_sock sid (\<lambda>s. s\<lparr>connected := False\<rparr>)"

definition sock_connected :: "client \<Rightarrow> nat \<Rightarrow> bool" where
  "sock_connected st sid = (sid < length (sockets st) \<and> connected (sockets st ! sid))"

definition handlers_of :: "client \<Rightarrow> nat \<Rightarrow> string \<Rightarrow> handler list" where
  "handlers_of st sid ev =
    (if sid < length (sockets st)
     then map snd (filter (\<lambda>(e, h). e = ev) (handlers (sockets st ! sid)))
     else [])"

subsection \<open>Heartbeat, cleanup, reconnect\<close>

definition stopHeartbeat :: "client \<Rightarrow> client" where
  "stopHeartbeat st = (if heartbeatInterval st then st\<lparr>heartbeatInterval := False\<rparr> else st)"

definition startHeartbeat :: "client \<Rightarrow> client" where
  "startHeartbeat st =
    (if heartbeatInterval st then st else (stopHeartbeat st)\<lparr>heartbeatInterval := True\<rparr>)"

definition cleanupSocket :: "client \<Rightarrow> client" where
  "cleanupSocket st =
    stopHeartbeat
      (case socket st of
         Some sid \<Rightarrow> (sock_disconnect sid (sock_off sid st))\<lparr>socket := None\<rparr>
       | None \<Rightarrow> st)"

text \<open>\<open>_reconnect()\<close>: the ceiling, then the flag, the delay from the counter, the
  increment, the log line and the timer. Every delay is a multiple of 1000, so
  \<open>delay / 1000\<close> prints as an integer.\<close>

definition reconnect :: "client \<Rightarrow> client" where
  "reconnect st =
    (if reconnectionAttempts st \<ge> 10 then
       console_log ''[PBUI] Max reconnection attempts reached or already reconnecting.'' st
     else
       let delay = min (1000 * 2 ^ reconnectionAttempts st) 10000 in
       (console_log (''[PBUI] Reconnecting in '' @ show_nat (delay div 1000) @ '' seconds...'')
            (st\<lparr>connecting := True, reconnectionAttempts := reconnectionAttempts st + 1\<rparr>))
         \<lparr>timers := timers st @ [delay]\<rparr>)"

subsection \<open>The base URL\<close>

text \<open>
  Line 4 declares \<open>const apiUrl = '...'\<close>; \<open>setApiBase\<close> ends with the statement
  \<open>apiUrl = url\<close>. Assigning to a \<open>const\<close> binding raises a \<open>TypeError\<close> when the
  statement runs. The statement is inside the \<open>try\<close>, so the \<open>catch\<close> takes the error,
  logs \<open>Invalid URL\<close> and the function returns normally. \<open>new URL(url)\<close> is the
  platform's parser: \<open>parses u\<close> tells whether it accepts \<open>u\<close> (it throws otherwise). The
  argument is \<open>None\<close> when the caller passes no URL.
\<close>

datatype binding = ConstBinding | LetBinding

definition apiUrl_binding :: binding where
  "apiUrl_binding = ConstBinding"

definition endsWith_slash :: "string \<Rightarrow> bool" where
  "endsWith_slash u = (u \<noteq> [] \<and> last u = CHR ''/'')"

definition setApiBase :: "(string \<Rightarrow> bool) \<Rightarrow> string option \<Rightarrow> client \<Rightarrow> client" where
  "setApiBase parses url st =
    (case url of
       None \<Rightarrow> console_log ''[PBUI] URL not provided to set as apiBase.'' st
     | Some u \<Rightarrow>
         if u = [] then console_log ''[PBUI] URL not provided to set as apiBase.'' st
         else if \<not> parses u then console_log (''[PBUI] Invalid URL: '' @ u) st
         else if endsWith_slash u then console_log ''[PBUI] API Url cannot have a trailing /'' st
         else (case apiUrl_binding of
                 LetBinding \<Rightarrow> st\<lparr>apiUrl := u\<rparr>
               | ConstBinding \<Rightarrow> console_log (''[PBUI] Invalid URL: '' @ u) st))"

subsection \<open>Listener registry\<close>

text \<open>\<open>_triggerListeners(event, data)\<close>: every registered listener is called with the
  data, in list order.\<close>

definition triggerListeners :: "string \<Rightarrow> jsval \<Rightarrow> client \<Rightarrow> (error + unit) \<times> client" where
  "triggerListeners event d st =
    (case read_slot (listeners st) event of
       Own ls \<Rightarrow> (Inr (), st\<lparr>invoked := invoked st @ map (\<lambda>listener. (listener, d)) ls\<rparr>)
     | Inherited \<Rightarrow> (Inl (not_a_function ''this.listeners[event].forEach''), st)
     | Missing \<Rightarrow> (Inr (), st))"

subsection \<open>Events of the transport and the handlers the client registers\<close>

datatype event =
    Connect
  | ConnectError string
  | Disconnect string
  | Custom string jsval

fun event_name :: "event \<Rightarrow> string" where
  "event_name Connect = ''connect''"
| "event_name (ConnectError msg) = ''connect_error''"
| "event_name (Disconnect reason) = ''disconnect''"
| "event_name (Custom name d) = name"

fun payload :: "event \<Rightarrow> jsval" where
  "payload Connect = JUndefined"
| "payload (ConnectError msg) = JObj 0 [(''message'', JStr msg)]"
| "payload (Disconnect reason) = JStr reason"
| "payload (Custom name d) = d"

definition remove_handler :: "nat \<Rightarrow> string \<Rightarrow> handler \<Rightarrow> client \<Rightarrow> client" where
  "remove_handler sid ev h = upd_sock sid (\<lambda>s. s\<lparr>handlers := remove1 (ev, h) (handlers s)\<rparr>)"

text \<open>\<open>error.message || 'Unknown error'\<close> in the \<open>connect_error\<close> handler.\<close>

fun error_message :: "event \<Rightarrow> string" where
  "error_message (ConnectError msg) = (if msg = [] then ''Unknown error'' else msg)"
| "error_message _ = ''Unknown error''"

fun reason_text :: "event \<Rightarrow> string" where
  "reason_text (Disconnect reason) = reason"
| "reason_text _ = ''undefined''"

text \<open>
  The body of each handler. A handler registered with \<open>once\<close> removes itself before it
  runs. The \<open>connect_error\<close> handler logs and rejects the promise, nothing else. The
  \<open>disconnect\<close> handler of \<open>_setupEventHandlers\<close> cleans up and then either calls
  \<open>_reconnect\<close> or clears the manual flag.
\<close>

fun run_handler :: "nat \<Rightarrow> event \<Rightarrow> handler \<Rightarrow> client \<Rightarrow> client" where
  "run_handler sid e (OnceConnect pid) st =
     settle pid Fulfilled
       (startHeartbeat
         ((console_log (''[PBUI] Connected to WebSocket: '' @ apiUrl st)
               (remove_handler sid (event_name e) (OnceConnect pid) st))
            \<lparr>connecting := False, reconnectionAttempts := 0\<rparr>))"
| "run_handler sid e (OnceConnectError pid) st =
     settle pid (Rejected (Error (''Connection failed: '' @ error_message e)))
       (console_log (''[PBUI] Connection failed: '' @ error_message e)
            (remove_handler sid (event_name e) (OnceConnectError pid) st))"
| "run_handler sid e OnDisconnect st =
     (let st1 = cleanupSocket (console_log (''[PBUI] Disconnected: '' @ reason_text e) st) in
      if \<not> manualDisconnect st1 then reconnect st1 else st1\<lparr>manualDisconnect := False\<rparr>)"
| "run_handler sid e OnInitialState st = snd (triggerListeners ''initial-state'' (payload e) st)"
| "run_handler sid e OnStateUpdated st = snd (triggerListeners ''state-updated'' (payload e) st)"
| "run_handler sid e (OnceDisconnect pid) st =
     settle pid Fulfilled
       (console_log ''[PBUI] WebSocket fully disconnected.''
            (cleanupSocket (remove_handler sid (event_name e) (OnceDisconnect pid) st)))"
| "run_handler sid e (Callback cb) st = st\<lparr>invoked := invoked st @ [(cb, payload e)]\<rparr>"

text \<open>The transport raises event \<open>e\<close> on socket \<open>sid\<close>: the library sets the socket's
  flag (\<open>connect\<close>, \<open>disconnect\<close>) and calls the handlers registered for the event at that
  moment, in registration order.\<close>

definition transport_event :: "nat \<Rightarrow> event \<Rightarrow> client \<Rightarrow> client" where
  "transport_event sid e st =
    (let st1 = (case e of
                  Connect \<Rightarrow> upd_sock sid (\<lambda>s. s\<lparr>connected := True\<rparr>) st
                | Disconnect reason \<Rightarrow> upd_sock sid (\<lambda>s. s\<lparr>connected := False\<rparr>) st
                | _ \<Rightarrow> st)
     in fold (run_handler sid e) (handlers_of st1 sid (event_name e)) st1)"

definition setupEventHandlers :: "client \<Rightarrow> client" where
  "setupEventHandlers st =
    (case socket st of
       None \<Rightarrow> st
     | Some sid \<Rightarrow>
         sock_on sid ''state-updated'' OnStateUpdated
           (sock_on sid ''initial-state'' OnInitialState
             (sock_on sid ''disconnect'' OnDisconnect st)))"

subsection \<open>\<open>disconnect\<close> and \<open>connect\<close>\<close>

text \<open>
  An \<open>async\<close> function runs up to its first \<open>await\<close> when it is called and continues in a
  later task. Each function below is one such stretch. \<open>disconnect\<close> returns the state and
  the promise it hands back (\<open>None\<close>: it returned at once). The closure of the socket is
  reported by the transport with a \<open>disconnect\<close> event, delivered by \<open>transport_event\<close>.
\<close>

definition disconnect :: "client \<Rightarrow> client \<times> nat option" where
  "disconnect st =
    (case socket st of
       None \<Rightarrow>
         (console_log ''[PBUI] WebSocket is not connected. Please connect before disconnecting.'' st, None)
     | Some sid \<Rightarrow>
         let st1 = stopHeartbeat (st\<lparr>manualDisconnect := True\<rparr>);
             (pid, st2) = new_promise st1;
             st3 = sock_on sid ''disconnect'' (OnceDisconnect pid) st2
         in (sock_disconnect sid st3, Some pid))"

definition disconnectIfConnected :: "client \<Rightarrow> client \<times> nat option" where
  "disconnectIfConnected st =
    (case socket st of
       None \<Rightarrow> (st, None)
     | Some sid \<Rightarrow>
         disconnect
           ((console_log ''[PBUI] Already connected to a WebSocket. Disconnecting first...'' st)
              \<lparr>manualDisconnect := True\<rparr>))"

text \<open>
  \<open>connect(url, options)\<close>, first stretch: the base URL, the flag, and the call of
  \<open>_disconnectIfConnected\<close>, whose promise it awaits. Second stretch, after that await:
  \<open>_establishConnection\<close> creates the socket and the readiness promise and registers the two
  \<open>once\<close> handlers that settle it; \<open>_startHeartbeat\<close>; then, after the \<open>try\<close>,
  \<open>_cleanupSocket()\<close> and \<open>_setupEventHandlers()\<close>; the promise is returned. No statement
  of the \<open>try\<close> block throws (the promise of \<open>disconnect\<close> is never rejected, and
  \<open>_establishConnection\<close> is \<open>async\<close>, so a failure inside it rejects its promise), hence
  the \<open>catch\<close> block is not a branch. The \<open>options\<close> only configure the transport.
\<close>

definition connect_begin :: "(string \<Rightarrow> bool) \<Rightarrow> string option \<Rightarrow> client \<Rightarrow> client \<times> nat option" where
  "connect_begin parses url st =
    disconnectIfConnected
      ((if url \<noteq> None \<and> url \<noteq> Some [] then setApiBase parses url st else st)
         \<lparr>connecting := True\<rparr>)"

definition establishConnection :: "client \<Rightarrow> client \<times> nat" where
  "establishConnection st =
    (let (pid, st1) = new_promise st;
         (sid, st2) = io st1;
         st3 = st2\<lparr>socket := Some sid\<rparr>;
         st4 = sock_on sid ''connect'' (OnceConnect pid) st3;
         st5 = sock_on sid ''connect_error'' (OnceConnectError pid) st4
     in (st5, pid))"

definition connect_resume :: "client \<Rightarrow> client \<times> nat option" where
  "connect_resume st =
    (let (st1, pid) = establishConnection st;
         st2 = st1\<lparr>connectionPromise := Some pid\<rparr>;
         st3 = startHeartbeat st2;
         st4 = cleanupSocket st3;
         st5 = setupEventHandlers st4
     in (st5, connectionPromise st5))"

subsection \<open>Operations that need a connection\<close>

text \<open>
  \<open>_ensureConnected()\<close> reads \<open>this.connecting\<close> and \<open>this.connectionPromise\<close> when it is
  called: \<open>ensureConnected_await\<close> is the promise the call then waits for (\<open>None\<close>: there
  is nothing to wait for, because the flag is clear or the field is \<open>null\<close>). The rest runs
  when the call continues, in the state of that moment: a rejection of the awaited promise
  is thrown by the \<open>await\<close>; otherwise the socket is checked. The statements of an operation
  that follow \<open>await this._ensureConnected()\<close> run in the same state as the check.
\<close>

datatype 'a outcome = Returned 'a | Thrown error | Suspended

definition ensureConnected_await :: "client \<Rightarrow> nat option" where
  "ensureConnected_await st = (if connecting st then connectionPromise st else None)"

definition check_socket :: "client \<Rightarrow> unit outcome" where
  "check_socket st =
    (case socket st of
       None \<Rightarrow> Thrown (Error ''[PBUI] Websocket not connected.'')
     | Some sid \<Rightarrow>
         if \<not> sock_connected st sid then Thrown (Error ''[PBUI] Websocket not connected.'')
         else Returned ())"

definition ensureConnected :: "nat option \<Rightarrow> client \<Rightarrow> unit outcome" where
  "ensureConnected aw st =
    (case aw of
       None \<Rightarrow> check_socket st
     | Some pid \<Rightarrow>
         (case promise_state st pid of
            Pending \<Rightarrow> Suspended
          | Rejected e \<Rightarrow> Thrown e
          | Fulfilled \<Rightarrow> check_socket st))"

definition on :: "string \<Rightarrow> nat \<Rightarrow> nat option \<Rightarrow> client \<Rightarrow> unit outcome \<times> client" where
  "on ev callback aw st =
    (case ensureConnected aw st of
       Suspended \<Rightarrow> (Suspended, st)
     | Thrown e \<Rightarrow> (Thrown e, st)
     | Returned u \<Rightarrow>
         (case socket st of
            None \<Rightarrow> (Returned (), console_log ''[PBUI] Not connected to WebSocket.'' st)
          | Some sid \<Rightarrow> (Returned (), sock_on sid ev (Callback callback) st)))"

definition send :: "string \<Rightarrow> jsval \<Rightarrow> nat option \<Rightarrow> client \<Rightarrow> unit outcome \<times> client" where
  "send ev d aw st =
    (case ensureConnected aw st of
       Suspended \<Rightarrow> (Suspended, st)
     | Thrown e \<Rightarrow> (Thrown e, st)
     | Returned u \<Rightarrow>
         (case socket st of
            None \<Rightarrow> (Returned (), console_log ''[PBUI] Not connected to WebSocket.'' st)
          | Some sid \<Rightarrow> (Returned (), st\<lparr>emitted := emitted st @ [(sid, ev, d)]\<rparr>)))"

text \<open>\<open>subscribe(event, listener)\<close>: a missing list is created; the listener is pushed
  unless \<open>includes\<close> finds it.\<close>

definition subscribe :: "string \<Rightarrow> nat \<Rightarrow> nat option \<Rightarrow> client \<Rightarrow> unit outcome \<times> client" where
  "subscribe ev listener aw st =
    (case ensureConnected aw st of
       Suspended \<Rightarrow> (Suspended, st)
     | Thrown e \<Rightarrow> (Thrown e, st)
     | Returned u \<Rightarrow>
         (case read_slot (listeners st) ev of
            Inherited \<Rightarrow> (Thrown (not_a_function ''this.listeners[event].includes''), st)
          | Missing \<Rightarrow>
              (Returned (),
               console_log (''[PBUI] Subscribed to event: '' @ ev)
                   (st\<lparr>listeners := (listeners st)(ev \<mapsto> [] @ [listener])\<rparr>))
          | Own ls \<Rightarrow>
              if listener \<notin> set ls then
                (Returned (),
                 console_log (''[PBUI] Subscribed to event: '' @ ev)
                     (st\<lparr>listeners := (listeners st)(ev \<mapsto> ls @ [listener])\<rparr>))
              else
                (Returned (), console_log (''[PBUI] Listener already subscribed to event: '' @ ev) st)))"

text \<open>\<open>indexOf\<close> gives the first position of the listener; \<open>splice(index, 1)\<close> removes
  the element at that position.\<close>

definition indexOf :: "'a list \<Rightarrow> 'a \<Rightarrow> nat option" where
  "indexOf xs x = (if x \<in> set xs then Some (length (takeWhile (\<lambda>y. y \<noteq> x) xs)) else None)"

definition splice1 :: "nat \<Rightarrow> 'a list \<Rightarrow> 'a list" where
  "splice1 i xs = take i xs @ drop (Suc i) xs"

definition unsubscribe :: "string \<Rightarrow> nat \<Rightarrow> nat option \<Rightarrow> client \<Rightarrow> unit outcome \<times> client" where
  "unsubscribe ev listener aw st =
    (case ensureConnected aw st of
       Suspended \<Rightarrow> (Suspended, st)
     | Thrown e \<Rightarrow> (Thrown e, st)
     | Returned u \<Rightarrow>
         (case read_slot (listeners st) ev of
            Missing \<Rightarrow> (Returned (), console_log (''[PBUI] No listeners to remove for event: '' @ ev) st)
          | Inherited \<Rightarrow> (Thrown (not_a_function ''this.listeners[event].indexOf''), st)
          | Own ls \<Rightarrow>
              (case indexOf ls listener of
                 None \<Rightarrow> (Returned (), console_log (''[PBUI] Listener not found for event: '' @ ev) st)
               | Some i \<Rightarrow>
                   (Returned (),
                    console_log (''[PBUI] Unsubscribed from event: '' @ ev)
                        (st\<lparr>listeners := (listeners st)(ev \<mapsto> splice1 i ls)\<rparr>)))))"

subsection \<open>Notions used in the statements\<close>

text \<open>The listeners registered for an event, in registration order (none when the
  registry has no list for it).\<close>

definition registered :: "client \<Rightarrow> string \<Rightarrow> nat list" where
  "registered st e = (case listeners st e of None \<Rightarrow> [] | Some ls \<Rightarrow> ls)"

text \<open>The handlers the client registers for the \<open>disconnect\<close> event: the one of
  \<open>_setupEventHandlers\<close>, the \<open>once\<close> handler of \<open>disconnect()\<close>, and callbacks the caller
  passes to \<open>on\<close>.\<close>

fun disconnect_handler :: "handler \<Rightarrow> bool" where
  "disconnect_handler OnDisconnect = True"
| "disconnect_handler (OnceDisconnect pid) = True"
| "disconnect_handler (Callback cb) = True"
| "disconnect_handler _ = False"

text \<open>
  Three states of a new client. \<open>after_connect_call\<close>: \<open>connect()\<close> has been called
  and has returned its promise to the caller (it is suspended at its first \<open>await\<close>).
  \<open>after_connect_resumed\<close>: \<open>connect()\<close> has run to its \<open>return\<close>.
  \<open>connected_client\<close>: a client that holds a connected socket carrying the handlers of
  \<open>_establishConnection\<close> and \<open>_setupEventHandlers\<close>, on which the transport has raised
  \<open>connect\<close>.
\<close>

definition after_connect_call :: client where
  "after_connect_call = fst (connect_begin (\<lambda>u. True) None new_PBUI)"

definition after_connect_resumed :: client where
  "after_connect_resumed = fst (connect_resume after_connect_call)"

definition connected_client :: client where
  "connected_client =
    transport_event 0 Connect (setupEventHandlers (fst (establishConnection new_PBUI)))"

section \<open>Properties\<close>

subsection \<open>Deep equality and the state cache\<close>

lemma read_slot_regular:
  "e \<notin> set object_prototype_names \<Longrightarrow>
   read_slot m e = (case m e of None \<Rightarrow> Missing | Some v \<Rightarrow> Own v)"
  by (simp add: read_slot_def split: option.splits)

text \<open>The method never looks at the kind of an object: two objects with the same own
  entries compare alike to any third value that is neither of them.\<close>

lemma valueEqual_by_entries:
  assumes "typeof v = ''object''" "truthy v" "typeof v' = ''object''" "truthy v'"
    and "own_entries v = own_entries v'"
    and "\<not> strict_eq v w" "\<not> strict_eq v' w"
  shows "valueEqual v w = valueEqual v' w"
proof -
  have k: "object_keys v = object_keys v'" and g: "get_prop v = get_prop v'"
    using assms(5) by (simp_all add: object_keys_def get_prop_def fun_eq_iff)
  show ?thesis
    by (subst valueEqual.simps, subst (2) valueEqual.simps) (simp add: assms k g)
qed

text \<open>What the statements of \<open>_internalUpdate\<close> do once they have an equality function:
  an equal value changes nothing; a different one is stored and every listener of the key
  is called with it, in order; the same value a second time fires nothing.\<close>

lemma internalUpdate_body_equal:
  "equal (read_data st key) v \<Longrightarrow> internalUpdate_body equal key v st = (Inr (), st, [])"
  by (simp add: internalUpdate_body_def)

lemma internalUpdate_body_differs:
  assumes "\<not> equal (read_data st key) v" "key \<notin> set object_prototype_names"
  shows "internalUpdate_body equal key v st =
    (Inr (), st\<lparr>data := (data st)(key \<mapsto> v)\<rparr>,
     map (\<lambda>callback. (callback, v))
       (case cache_listeners st key of None \<Rightarrow> [] | Some cbs \<Rightarrow> cbs))"
  using assms
  by (cases "cache_listeners st key")
     (simp_all add: internalUpdate_body_def Let_def read_slot_regular)

lemma internalUpdate_body_repeat:
  assumes "\<not> valueEqual (read_data st key) v1" "key \<notin> set object_prototype_names"
    and "valueEqual v1 v2"
  shows "internalUpdate_body valueEqual key v2
           (fst (snd (internalUpdate_body valueEqual key v1 st))) =
         (Inr (), st\<lparr>data := (data st)(key \<mapsto> v1)\<rparr>, [])"
proof -
  have "read_data (st\<lparr>data := (data st)(key \<mapsto> v1)\<rparr>) key = v1"
    by (simp add: read_data_def read_slot_def)
  with assms(3) show ?thesis
    by (simp add: internalUpdate_body_differs [of valueEqual st key v1, OF assms(1,2)]
        internalUpdate_body_equal)
qed

text \<open>
  Claim C1, at the failing input. The claim wants a value that differs from the stored one
  to replace it and to fire the listeners of the key. \<open>_internalUpdate\<close> as written throws
  a \<open>TypeError\<close> for every key, value and state, before it stores or fires anything: on a
  cache with no data and a listener 7 for \<open>state\<close>, the update with the number 1 (which is
  not deep-equal to the stored \<open>undefined\<close>) leaves the cache as it was and calls nobody.
\<close>

theorem C1_internalUpdate_throws:
  "internalUpdate key val st =
     (Inl (TypeError ''funcs._valueEqual is not a function''), st, [])
   \<and> \<not> valueEqual
         (read_data \<lparr>data = Map.empty, cache_listeners = [''state'' \<mapsto> [7]]\<rparr> ''state'')
         (JNum (Fin 1))
   \<and> internalUpdate ''state'' (JNum (Fin 1))
         \<lparr>data = Map.empty, cache_listeners = [''state'' \<mapsto> [7]]\<rparr> =
       (Inl (TypeError ''funcs._valueEqual is not a function''),
        \<lparr>data = Map.empty, cache_listeners = [''state'' \<mapsto> [7]]\<rparr>, [])"
  by (simp add: internalUpdate_def funcs_static_members_def not_a_function_def read_data_def
      read_slot_def object_prototype_names_def valueEqual.simps)

text \<open>
  Claim C10. The array \<open>[1, 2]\<close> and the plain object \<open>{"0": 1, "1": 2}\<close> are different
  values of different kinds, and \<open>_valueEqual\<close> reports them equal. With the array stored
  under a key, an internal update with the object fires no listener and leaves the array
  stored: so it is for \<open>_internalUpdate\<close> as written, and so it is for its statements run
  with \<open>_valueEqual\<close> as the equality.
\<close>

theorem C10_array_equals_object:
  "JArr 1 [JNum (Fin 1), JNum (Fin 2)] \<noteq> JObj 2 [(''0'', JNum (Fin 1)), (''1'', JNum (Fin 2))]
   \<and> valueEqual (JArr 1 [JNum (Fin 1), JNum (Fin 2)])
        (JObj 2 [(''0'', JNum (Fin 1)), (''1'', JNum (Fin 2))])
   \<and> snd (snd (internalUpdate key (JObj 2 [(''0'', JNum (Fin 1)), (''1'', JNum (Fin 2))])
        (st\<lparr>data := (data st)(key \<mapsto> JArr 1 [JNum (Fin 1), JNum (Fin 2)])\<rparr>))) = []
   \<and> data (fst (snd (internalUpdate key (JObj 2 [(''0'', JNum (Fin 1)), (''1'', JNum (Fin 2))])
        (st\<lparr>data := (data st)(key \<mapsto> JArr 1 [JNum (Fin 1), JNum (Fin 2)])\<rparr>)))) key =
       Some (JArr 1 [JNum (Fin 1), JNum (Fin 2)])
   \<and> internalUpdate_body valueEqual key (JObj 2 [(''0'', JNum (Fin 1)), (''1'', JNum (Fin 2))])
        (st\<lparr>data := (data st)(key \<mapsto> JArr 1 [JNum (Fin 1), JNum (Fin 2)])\<rparr>) =
       (Inr (), st\<lparr>data := (data st)(key \<mapsto> JArr 1 [JNum (Fin 1), JNum (Fin 2)])\<rparr>, [])"
proof -
  have eq: "valueEqual (JArr 1 [JNum (Fin 1), JNum (Fin 2)])
      (JObj 2 [(''0'', JNum (Fin 1)), (''1'', JNum (Fin 2))])"
    by (simp add: valueEqual.simps object_keys_def get_prop_def digit_char_def)
  show ?thesis
    using eq
    by (simp add: internalUpdate_def funcs_static_members_def internalUpdate_body_def
        read_data_def read_slot_def)
qed

text \<open>The arguments \<open>update\<close> rejects, and what it does with all others.\<close>

lemma update_invalid:
  "typeof s \<noteq> ''object'' \<or> s = JNull \<or> object_keys s = [] \<or> typeof f \<noteq> ''number'' \<or> f = JNum NaN
   \<Longrightarrow> is_validation_error (fst (update rest s f)) \<and> snd (update rest s f) = []"
  by (cases s) (auto simp add: update_def validation_errors_def is_validation_error_def)

lemma update_valid:
  "\<not> (typeof s \<noteq> ''object'' \<or> s = JNull \<or> object_keys s = [] \<or> typeof f \<noteq> ''number'' \<or> f = JNum NaN)
   \<Longrightarrow> update rest s f = (Inl (TypeError ''funcs._fetchData is not a function''), [])"
  by (cases s) (auto simp add: update_def Let_def funcs_static_members_def not_a_function_def)

text \<open>
  Claim C6 as stated fails: the flow step \<open>Infinity\<close> is not a finite number, and
  \<open>update({"abc123": "cleared"}, Infinity)\<close> raises no validation error. (And with the flow
  step 2 and a server that acknowledges success, the call does not return \<open>true\<close>.)
\<close>

theorem C6_update_counterexample:
  "\<not> is_validation_error
       (fst (update (\<lambda>e m b. Inr (JObj 1 [(''success'', JBool True)]))
              (JObj 2 [(''abc123'', JStr ''cleared'')]) (JNum PosInf)))
   \<and> fst (update (\<lambda>e m b. Inr (JObj 1 [(''success'', JBool True)]))
              (JObj 2 [(''abc123'', JStr ''cleared'')]) (JNum (Fin 2))) \<noteq> Inr True"
  by (simp add: update_def Let_def funcs_static_members_def not_a_function_def
      validation_errors_def object_keys_def is_validation_error_def)

text \<open>
  Claim C6, amended. \<open>update\<close> fails with a validation error exactly when the state map is
  not of type \<open>object\<close>, is \<open>null\<close> or has no own enumerable key, or the flow step is not of
  type \<open>number\<close> or is \<open>NaN\<close>; and when it fails so, it has issued no request.
\<close>

theorem C6_update_validation:
  "(is_validation_error (fst (update rest s f)) \<longleftrightarrow>
      (typeof s \<noteq> ''object'' \<or> s = JNull \<or> object_keys s = []
       \<or> typeof f \<noteq> ''number'' \<or> f = JNum NaN))
   \<and> (is_validation_error (fst (update rest s f)) \<longrightarrow> snd (update rest s f) = [])"
proof (cases "typeof s \<noteq> ''object'' \<or> s = JNull \<or> object_keys s = []
    \<or> typeof f \<noteq> ''number'' \<or> f = JNum NaN")
  case True
  from update_invalid [OF this] True show ?thesis by blast
next
  case False
  from update_valid [OF this] False show ?thesis
    by (simp add: is_validation_error_def validation_errors_def)
qed

theorem C6_update_validation_witness:
  "is_validation_error (fst (update (\<lambda>e m b. Inr JNull) (JObj 1 []) (JNum (Fin 2))))
   \<and> snd (update (\<lambda>e m b. Inr JNull) (JObj 1 []) (JNum (Fin 2))) = []"
  using C6_update_validation [of "\<lambda>e m b. Inr JNull" "JObj 1 []" "JNum (Fin 2)"]
  by (simp add: object_keys_def)

subsection \<open>The base URL\<close>

text \<open>
  Claim C9, at the failing input. The claim wants \<open>setApiBase(u)\<close> with a well-formed
  \<open>u\<close> that has no trailing \<open>/\<close> to make \<open>u\<close> the base URL. \<open>setApiBase\<close> never changes
  the base URL, whatever the parser accepts: for \<open>https://example.com/api\<close> the module
  variable keeps its initial value and the console shows \<open>Invalid URL\<close>.
\<close>

theorem C9_setApiBase_keeps_apiUrl:
  "apiUrl (setApiBase parses url st) = apiUrl st
   \<and> apiUrl (setApiBase (\<lambda>u. True) (Some ''https://example.com/api'') new_PBUI) =
       ''https://api.ultraslayyy.xyz/api''
   \<and> console (setApiBase (\<lambda>u. True) (Some ''https://example.com/api'') new_PBUI) =
       [''[PBUI] Invalid URL: https://example.com/api'']"
  by (simp add: setApiBase_def console_log_def apiUrl_binding_def endsWith_slash_def
      new_PBUI_def split: option.splits)

subsection \<open>The reconnect scheduler\<close>

lemma reconnect_attempts:
  "reconnectionAttempts (reconnect st) =
    (if reconnectionAttempts st \<ge> 10 then reconnectionAttempts st else reconnectionAttempts st + 1)"
  by (simp add: reconnect_def console_log_def Let_def)

lemma reconnect_timers:
  "timers (reconnect st) =
    (if reconnectionAttempts st \<ge> 10 then timers st
     else timers st @ [min (1000 * 2 ^ reconnectionAttempts st) 10000])"
  by (simp add: reconnect_def console_log_def Let_def)

lemma reconnect_iter:
  assumes "reconnectionAttempts st = 0"
  shows "reconnectionAttempts ((reconnect ^^ k) st) = min k 10 \<and>
         timers ((reconnect ^^ k) st) =
           timers st @ map (\<lambda>n. min (1000 * 2 ^ n) 10000) [0..<min k 10]"
proof (induction k)
  case 0
  with assms show ?case by simp
next
  case (Suc k)
  show ?case
  proof (cases "k < 10")
    case True
    then have "min (Suc k) 10 = Suc k" "min k 10 = k" by simp_all
    with Suc True show ?thesis by (simp add: reconnect_attempts reconnect_timers)
  next
    case False
    then have "min (Suc k) 10 = 10" "min k 10 = 10" by simp_all
    with Suc False show ?thesis by (simp add: reconnect_attempts reconnect_timers)
  qed
qed

text \<open>
  Claim C3. Start the scheduler with the attempt counter at 0 and call \<open>_reconnect\<close> \<open>k\<close>
  times. The counter is then \<open>min k 10\<close> (it is incremented by every call that schedules a
  retry), the delays scheduled are \<open>min (1000 * 2^n) 10000\<close> for \<open>n = 0, ..., min k 10 - 1\<close>
  in that order, the first six being 1000, 2000, 4000, 8000, 10000, 10000, and from the
  tenth call on a further call schedules nothing: exactly ten retries have been scheduled.
\<close>

theorem C3_reconnect_delays:
  assumes "reconnectionAttempts st = 0"
  shows "reconnectionAttempts ((reconnect ^^ k) st) = min k 10
       \<and> timers ((reconnect ^^ k) st) =
           timers st @ map (\<lambda>n. min (1000 * 2 ^ n) 10000) [0..<min k 10]
       \<and> timers ((reconnect ^^ 6) st) = timers st @ [1000, 2000, 4000, 8000, 10000, 10000]
       \<and> (10 \<le> k \<longrightarrow>
            timers (reconnect ((reconnect ^^ k) st)) = timers ((reconnect ^^ k) st)
          \<and> length (timers ((reconnect ^^ k) st)) = length (timers st) + 10)"
proof -
  have six: "map (\<lambda>n. min (1000 * 2 ^ n) 10000) [0..<min 6 10] =
      [1000, 2000, 4000, 8000, 10000, 10000::nat]"
    by (simp add: upt_rec)
  from reconnect_iter [OF assms, of 6] six
  have "timers ((reconnect ^^ 6) st) = timers st @ [1000, 2000, 4000, 8000, 10000, 10000]"
    by (simp only:)
  moreover have "10 \<le> k \<longrightarrow>
      timers (reconnect ((reconnect ^^ k) st)) = timers ((reconnect ^^ k) st)
    \<and> length (timers ((reconnect ^^ k) st)) = length (timers st) + 10"
    using reconnect_iter [OF assms, of k] by (simp add: reconnect_timers)
  ultimately show ?thesis using reconnect_iter [OF assms, of k] by blast
qed

theorem C3_reconnect_delays_witness:
  "reconnectionAttempts new_PBUI = 0
   \<and> timers ((reconnect ^^ 12) new_PBUI) =
       [1000, 2000, 4000, 8000, 10000, 10000, 10000, 10000, 10000, 10000]
   \<and> reconnectionAttempts ((reconnect ^^ 12) new_PBUI) = 10"
  using C3_reconnect_delays [of new_PBUI 12] by (simp add: new_PBUI_def upt_rec)

subsection \<open>Manual disconnect\<close>

lemma cleanupSocket_fields:
  "timers (cleanupSocket st) = timers st"
  "reconnectionAttempts (cleanupSocket st) = reconnectionAttempts st"
  "connecting (cleanupSocket st) = connecting st"
  "manualDisconnect (cleanupSocket st) = manualDisconnect st"
  "socket (cleanupSocket st) = None"
  "\<not> heartbeatInterval (cleanupSocket st)"
  by (simp_all add: cleanupSocket_def stopHeartbeat_def sock_disconnect_def sock_off_def
      upd_sock_def split: option.splits)

lemma settle_fields:
  "timers (settle pid r st) = timers st"
  "reconnectionAttempts (settle pid r st) = reconnectionAttempts st"
  "connecting (settle pid r st) = connecting st"
  "manualDisconnect (settle pid r st) = manualDisconnect st"
  "socket (settle pid r st) = socket st"
  "heartbeatInterval (settle pid r st) = heartbeatInterval st"
  by (simp_all add: settle_def)

lemma console_log_fields:
  "timers (console_log m st) = timers st"
  "reconnectionAttempts (console_log m st) = reconnectionAttempts st"
  "connecting (console_log m st) = connecting st"
  "manualDisconnect (console_log m st) = manualDisconnect st"
  "socket (console_log m st) = socket st"
  "heartbeatInterval (console_log m st) = heartbeatInterval st"
  by (simp_all add: console_log_def)

lemma upd_sock_fields:
  "timers (upd_sock sid f st) = timers st"
  "reconnectionAttempts (upd_sock sid f st) = reconnectionAttempts st"
  "connecting (upd_sock sid f st) = connecting st"
  "manualDisconnect (upd_sock sid f st) = manualDisconnect st"
  "socket (upd_sock sid f st) = socket st"
  "heartbeatInterval (upd_sock sid f st) = heartbeatInterval st"
  by (simp_all add: upd_sock_def)

lemmas client_fields = cleanupSocket_fields settle_fields console_log_fields upd_sock_fields

lemma run_OnceDisconnect:
  "timers (run_handler sid e (OnceDisconnect pid) st) = timers st"
  "reconnectionAttempts (run_handler sid e (OnceDisconnect pid) st) = reconnectionAttempts st"
  "connecting (run_handler sid e (OnceDisconnect pid) st) = connecting st"
  "manualDisconnect (run_handler sid e (OnceDisconnect pid) st) = manualDisconnect st"
  "socket (run_handler sid e (OnceDisconnect pid) st) = None"
  "\<not> heartbeatInterval (run_handler sid e (OnceDisconnect pid) st)"
  by (simp_all add: client_fields remove_handler_def)

lemma run_Callback:
  "timers (run_handler sid e (Callback cb) st) = timers st"
  "reconnectionAttempts (run_handler sid e (Callback cb) st) = reconnectionAttempts st"
  "connecting (run_handler sid e (Callback cb) st) = connecting st"
  "manualDisconnect (run_handler sid e (Callback cb) st) = manualDisconnect st"
  by simp_all

lemma run_OnDisconnect_manual:
  assumes "manualDisconnect st"
  shows "timers (run_handler sid e OnDisconnect st) = timers st"
    and "reconnectionAttempts (run_handler sid e OnDisconnect st) = reconnectionAttempts st"
    and "connecting (run_handler sid e OnDisconnect st) = connecting st"
    and "\<not> manualDisconnect (run_handler sid e OnDisconnect st)"
  using assms by (simp_all add: Let_def client_fields)

text \<open>Without the manual flag the same handler does call the scheduler.\<close>

lemma run_OnDisconnect_unrequested:
  assumes "\<not> manualDisconnect st" "reconnectionAttempts st < 10"
  shows "timers (run_handler sid e OnDisconnect st) =
           timers st @ [min (1000 * 2 ^ reconnectionAttempts st) 10000]"
    and "connecting (run_handler sid e OnDisconnect st)"
  using assms by (simp_all add: Let_def client_fields reconnect_def)

text \<open>Running the handlers of a \<open>disconnect\<close> event, of which at most one is the handler of
  \<open>_setupEventHandlers\<close>: if the manual flag is set when that handler runs, nothing is
  scheduled, and the flag is clear afterwards.\<close>

lemma fold_disconnect_handlers:
  assumes "\<forall>h\<in>set hs. disconnect_handler h"
    and "count_list hs OnDisconnect \<le> 1"
    and "OnDisconnect \<in> set hs \<longrightarrow> manualDisconnect st"
  shows "timers (fold (run_handler sid e) hs st) = timers st
       \<and> reconnectionAttempts (fold (run_handler sid e) hs st) = reconnectionAttempts st
       \<and> connecting (fold (run_handler sid e) hs st) = connecting st
       \<and> manualDisconnect (fold (run_handler sid e) hs st) =
           (manualDisconnect st \<and> OnDisconnect \<notin> set hs)"
  using assms
proof (induction hs arbitrary: st)
  case Nil
  show ?case by simp
next
  case (Cons h hs)
  from Cons.prems(1) have kind: "disconnect_handler h"
    and rest: "\<forall>h\<in>set hs. disconnect_handler h"
    by simp_all
  show ?case
  proof (cases h)
    case OnDisconnect
    with Cons.prems(2) have none: "count_list hs OnDisconnect = 0"
      by simp
    then have notin: "OnDisconnect \<notin> set hs"
      by (simp add: count_list_0_iff)
    from OnDisconnect Cons.prems(3) have manual: "manualDisconnect st"
      by simp
    have "timers (fold (run_handler sid e) hs (run_handler sid e OnDisconnect st)) =
            timers (run_handler sid e OnDisconnect st)
        \<and> reconnectionAttempts (fold (run_handler sid e) hs (run_handler sid e OnDisconnect st)) =
            reconnectionAttempts (run_handler sid e OnDisconnect st)
        \<and> connecting (fold (run_handler sid e) hs (run_handler sid e OnDisconnect st)) =
            connecting (run_handler sid e OnDisconnect st)
        \<and> manualDisconnect (fold (run_handler sid e) hs (run_handler sid e OnDisconnect st)) =
            (manualDisconnect (run_handler sid e OnDisconnect st) \<and> OnDisconnect \<notin> set hs)"
      using rest none notin by (intro Cons.IH) simp_all
    with run_OnDisconnect_manual [OF manual, of sid e] OnDisconnect manual notin show ?thesis
      by (simp del: run_handler.simps)
  next
    case (OnceDisconnect pid)
    with Cons.prems(2,3) have c: "count_list hs OnDisconnect \<le> 1"
      and m: "OnDisconnect \<in> set hs \<longrightarrow>
              manualDisconnect (run_handler sid e (OnceDisconnect pid) st)"
      by (simp_all add: run_OnceDisconnect del: run_handler.simps)
    from Cons.IH [OF rest c m] OnceDisconnect show ?thesis
      by (simp add: run_OnceDisconnect del: run_handler.simps)
  next
    case (Callback cb)
    with Cons.prems(2,3) have c: "count_list hs OnDisconnect \<le> 1"
      and m: "OnDisconnect \<in> set hs \<longrightarrow> manualDisconnect (run_handler sid e (Callback cb) st)"
      by (simp_all add: run_Callback del: run_handler.simps)
    from Cons.IH [OF rest c m] Callback show ?thesis
      by (simp add: run_Callback del: run_handler.simps)
  qed (use kind in simp_all)
qed

lemma handlers_of_sock_on:
  assumes "sid < length (sockets st)"
  shows "handlers_of (sock_on sid ev h st) sid ev = handlers_of st sid ev @ [h]"
  using assms by (simp add: handlers_of_def sock_on_def upd_sock_def)

lemma handlers_of_frame:
  assumes "sockets st' = sockets st"
  shows "handlers_of st' sid ev = handlers_of st sid ev"
  using assms by (simp add: handlers_of_def)

lemma handlers_of_connected_upd:
  "handlers_of (upd_sock sid (\<lambda>s. s\<lparr>connected := b\<rparr>) st) sid' ev = handlers_of st sid' ev"
  by (cases "sid' = sid") (simp_all add: handlers_of_def upd_sock_def)

lemma disconnect_with_socket:
  assumes "socket st = Some sid"
  shows "disconnect st =
    (sock_disconnect sid
       (sock_on sid ''disconnect'' (OnceDisconnect (length (promises st)))
          (snd (new_promise (stopHeartbeat (st\<lparr>manualDisconnect := True\<rparr>))))),
     Some (length (promises st)))"
  using assms
  by (cases "heartbeatInterval st")
     (simp_all add: disconnect_def Let_def new_promise_def stopHeartbeat_def)

text \<open>
  Claim C4. Take a client that holds a socket on which the \<open>disconnect\<close> handler of
  \<open>_setupEventHandlers\<close> is registered once (beside it there may be callbacks of the caller
  and \<open>once\<close> handlers of earlier \<open>disconnect()\<close> calls). Call \<open>disconnect()\<close>: the manual
  flag is set. Let the transport then raise \<open>disconnect\<close> on that socket: no retry is
  scheduled (the timers, the attempt counter and the \<open>connecting\<close> flag are as before the
  call), the manual flag is clear again, the socket reference is dropped and the heartbeat
  is stopped.
\<close>

theorem C4_manual_disconnect_no_reconnect:
  assumes sock: "socket st = Some sid" "sid < length (sockets st)"
    and hs: "\<forall>h\<in>set (handlers_of st sid ''disconnect''). disconnect_handler h"
    and one: "count_list (handlers_of st sid ''disconnect'') OnDisconnect = 1"
    and d: "disconnect st = (st1, p)"
    and ev: "transport_event sid (Disconnect reason) st1 = st2"
  shows "manualDisconnect st1
       \<and> timers st2 = timers st
       \<and> reconnectionAttempts st2 = reconnectionAttempts st
       \<and> connecting st2 = connecting st
       \<and> \<not> manualDisconnect st2
       \<and> socket st2 = None
       \<and> \<not> heartbeatInterval st2"
proof -
  define st0 where "st0 = snd (new_promise (stopHeartbeat (st\<lparr>manualDisconnect := True\<rparr>)))"
  define pid where "pid = length (promises st)"
  have socks0: "sockets st0 = sockets st"
    by (simp add: st0_def new_promise_def stopHeartbeat_def)
  have st1: "st1 = sock_disconnect sid (sock_on sid ''disconnect'' (OnceDisconnect pid) st0)"
    using d disconnect_with_socket [OF sock(1)] by (simp add: st0_def pid_def)
  have f0: "manualDisconnect st0" "timers st0 = timers st"
      "reconnectionAttempts st0 = reconnectionAttempts st" "connecting st0 = connecting st"
    by (simp_all add: st0_def new_promise_def stopHeartbeat_def)
  define st1' where "st1' = upd_sock sid (\<lambda>s. s\<lparr>connected := False\<rparr>) st1"
  have f1: "manualDisconnect st1'" "timers st1' = timers st"
      "reconnectionAttempts st1' = reconnectionAttempts st" "connecting st1' = connecting st"
      "manualDisconnect st1"
    using f0 by (simp_all add: st1'_def st1 sock_disconnect_def sock_on_def upd_sock_fields)
  have len0: "sid < length (sockets st0)"
    using sock(2) socks0 by simp
  have hs1: "handlers_of st1' sid ''disconnect'' =
      handlers_of st sid ''disconnect'' @ [OnceDisconnect pid]"
    unfolding st1'_def st1 sock_disconnect_def
    by (simp add: handlers_of_connected_upd handlers_of_sock_on [OF len0]
        handlers_of_frame [OF socks0])
  have st2: "st2 = run_handler sid (Disconnect reason) (OnceDisconnect pid)
        (fold (run_handler sid (Disconnect reason)) (handlers_of st sid ''disconnect'') st1')"
    using ev by (simp add: transport_event_def st1'_def [symmetric] hs1 del: run_handler.simps)
  from one have mem: "OnDisconnect \<in> set (handlers_of st sid ''disconnect'')"
    by (metis count_list_0_iff zero_neq_one)
  from one have le: "count_list (handlers_of st sid ''disconnect'') OnDisconnect \<le> 1"
    by simp
  from f1(1) have pre:
    "OnDisconnect \<in> set (handlers_of st sid ''disconnect'') \<longrightarrow> manualDisconnect st1'"
    by simp
  note mid = fold_disconnect_handlers [OF hs le pre, of sid "Disconnect reason"]
  show ?thesis
    unfolding st2 using mid mem f1 by (simp add: run_OnceDisconnect del: run_handler.simps)
qed

theorem C4_manual_disconnect_no_reconnect_witness:
  "socket connected_client = Some 0
   \<and> handlers_of connected_client 0 ''disconnect'' = [OnDisconnect]
   \<and> manualDisconnect (fst (disconnect connected_client))
   \<and> timers (transport_event 0 (Disconnect ''io client disconnect'')
        (fst (disconnect connected_client))) = []
   \<and> \<not> manualDisconnect (transport_event 0 (Disconnect ''io client disconnect'')
        (fst (disconnect connected_client)))
   \<and> socket (transport_event 0 (Disconnect ''io client disconnect'')
        (fst (disconnect connected_client))) = None"
proof -
  have a: "socket connected_client = Some 0" by code_simp
  have b: "0 < length (sockets connected_client)" by code_simp
  have hd: "handlers_of connected_client 0 ''disconnect'' = [OnDisconnect]" by code_simp
  have c: "\<forall>h\<in>set (handlers_of connected_client 0 ''disconnect''). disconnect_handler h"
    unfolding hd by simp
  have d: "count_list (handlers_of connected_client 0 ''disconnect'') OnDisconnect = 1"
    unfolding hd by simp
  have e: "disconnect connected_client =
      (fst (disconnect connected_client), snd (disconnect connected_client))"
    by simp
  have t: "timers connected_client = []" by code_simp
  from C4_manual_disconnect_no_reconnect [OF a b c d e refl, of "''io client disconnect''"] a hd t
  show ?thesis by simp
qed

text \<open>
  An unrequested disconnect. On a client that holds a socket whose only \<open>disconnect\<close>
  handler is the one of \<open>_setupEventHandlers\<close>, with the manual flag clear and fewer than
  ten attempts counted, a \<open>disconnect\<close> event of the transport drops the socket, stops the
  heartbeat and schedules one retry with the delay of the policy; the counter is
  incremented and the client says it is connecting.
\<close>

theorem unrequested_disconnect_schedules_retry:
  assumes "sid < length (sockets st)"
    and "handlers_of st sid ''disconnect'' = [OnDisconnect]"
    and "\<not> manualDisconnect st"
    and "reconnectionAttempts st < 10"
  shows "timers (transport_event sid (Disconnect reason) st) =
           timers st @ [min (1000 * 2 ^ reconnectionAttempts st) 10000]
       \<and> reconnectionAttempts (transport_event sid (Disconnect reason) st) =
           reconnectionAttempts st + 1
       \<and> connecting (transport_event sid (Disconnect reason) st)
       \<and> socket (transport_event sid (Disconnect reason) st) = None
       \<and> \<not> heartbeatInterval (transport_event sid (Disconnect reason) st)
       \<and> \<not> manualDisconnect (transport_event sid (Disconnect reason) st)"
proof -
  define st1 where "st1 = upd_sock sid (\<lambda>s. s\<lparr>connected := False\<rparr>) st"
  have hs: "handlers_of st1 sid ''disconnect'' = [OnDisconnect]"
    unfolding st1_def using assms(2) by (simp add: handlers_of_connected_upd)
  have ev: "transport_event sid (Disconnect reason) st = run_handler sid (Disconnect reason) OnDisconnect st1"
    by (simp add: transport_event_def st1_def [symmetric] hs del: run_handler.simps)
  have f: "\<not> manualDisconnect st1" "reconnectionAttempts st1 = reconnectionAttempts st"
      "timers st1 = timers st"
    using assms(3) by (simp_all add: st1_def upd_sock_fields)
  show ?thesis
    unfolding ev using f assms(4)
    by (simp add: Let_def client_fields reconnect_def)
qed

theorem unrequested_disconnect_schedules_retry_witness:
  "handlers_of connected_client 0 ''disconnect'' = [OnDisconnect]
   \<and> \<not> manualDisconnect connected_client
   \<and> reconnectionAttempts connected_client = 0
   \<and> timers (transport_event 0 (Disconnect ''transport close'') connected_client) = [1000]
   \<and> reconnectionAttempts (transport_event 0 (Disconnect ''transport close'') connected_client) = 1
   \<and> socket (transport_event 0 (Disconnect ''transport close'') connected_client) = None"
proof -
  have a: "0 < length (sockets connected_client)" by code_simp
  have b: "handlers_of connected_client 0 ''disconnect'' = [OnDisconnect]" by code_simp
  have c: "\<not> manualDisconnect connected_client" by code_simp
  have n: "reconnectionAttempts connected_client = 0" by code_simp
  then have d: "reconnectionAttempts connected_client < 10" by simp
  have t: "timers connected_client = []" by code_simp
  from unrequested_disconnect_schedules_retry [OF a b c d, of "''transport close''"] b c n t
  show ?thesis by simp
qed

subsection \<open>Connecting\<close>

text \<open>Whatever the state, \<open>connect()\<close> returns with the socket it created already
  cleaned up: the client holds no socket, the heartbeat is stopped, the new socket has no
  handler for any event, and the readiness promise it returns is pending.\<close>

lemma setupEventHandlers_no_socket: "socket st = None \<Longrightarrow> setupEventHandlers st = st"
  by (simp add: setupEventHandlers_def)

lemma establishConnection_result:
  "establishConnection st =
     (sock_on (length (sockets st)) ''connect_error'' (OnceConnectError (length (promises st)))
        (sock_on (length (sockets st)) ''connect'' (OnceConnect (length (promises st)))
           ((snd (io (snd (new_promise st))))\<lparr>socket := Some (length (sockets st))\<rparr>)),
      length (promises st))"
  by (simp add: establishConnection_def Let_def new_promise_def io_def)

lemma connect_resume_drops_socket:
  "socket (fst (connect_resume st)) = None
   \<and> \<not> heartbeatInterval (fst (connect_resume st))
   \<and> snd (connect_resume st) = Some (length (promises st))
   \<and> promise_state (fst (connect_resume st)) (length (promises st)) = Pending
   \<and> handlers_of (fst (connect_resume st)) (length (sockets st)) ev = []
   \<and> timers (fst (connect_resume st)) = timers st
   \<and> connecting (fst (connect_resume st)) = connecting st"
proof -
  define st4 where "st4 = cleanupSocket (startHeartbeat
      ((fst (establishConnection st))\<lparr>connectionPromise := Some (snd (establishConnection st))\<rparr>))"
  have none: "socket st4 = None"
    by (simp add: st4_def cleanupSocket_fields)
  have res: "connect_resume st = (st4, connectionPromise st4)"
    by (simp add: connect_resume_def Let_def split_def st4_def [symmetric]
        setupEventHandlers_no_socket [OF none])
  have "\<not> heartbeatInterval st4"
    by (simp add: st4_def cleanupSocket_fields)
  moreover have "connectionPromise st4 = Some (length (promises st))"
    by (simp add: st4_def establishConnection_result cleanupSocket_def stopHeartbeat_def
        startHeartbeat_def sock_disconnect_def sock_off_def sock_on_def upd_sock_def io_def
        new_promise_def)
  moreover have "promise_state st4 (length (promises st)) = Pending"
    by (simp add: st4_def establishConnection_result cleanupSocket_def stopHeartbeat_def
        startHeartbeat_def sock_disconnect_def sock_off_def sock_on_def upd_sock_def io_def
        new_promise_def promise_state_def)
  moreover have "handlers_of st4 (length (sockets st)) ev = []"
    by (simp add: st4_def establishConnection_result cleanupSocket_def stopHeartbeat_def
        startHeartbeat_def sock_disconnect_def sock_off_def sock_on_def upd_sock_def io_def
        new_promise_def handlers_of_def)
  moreover have "timers st4 = timers st" "connecting st4 = connecting st"
    by (simp_all add: st4_def establishConnection_result cleanupSocket_def stopHeartbeat_def
        startHeartbeat_def sock_disconnect_def sock_off_def sock_on_def upd_sock_def io_def
        new_promise_def)
  ultimately show ?thesis
    using none res by simp
qed

text \<open>\<open>connect()\<close> itself leaves the attempt counter alone: only the \<open>connect\<close> handler
  resets it, and only \<open>_reconnect\<close> increments it.\<close>

lemma connect_keeps_attempts:
  "reconnectionAttempts (fst (connect_begin parses url st)) = reconnectionAttempts st"
  "reconnectionAttempts (fst (connect_resume st)) = reconnectionAttempts st"
proof -
  have d: "reconnectionAttempts (fst (disconnect s)) = reconnectionAttempts s" for s
  proof (cases "socket s")
    case None
    then show ?thesis by (simp add: disconnect_def console_log_def)
  next
    case (Some sid)
    then show ?thesis
      by (simp add: disconnect_with_socket sock_disconnect_def sock_on_def upd_sock_fields
          new_promise_def stopHeartbeat_def)
  qed
  have a: "reconnectionAttempts (setApiBase parses url st) = reconnectionAttempts st"
    by (simp add: setApiBase_def console_log_def apiUrl_binding_def split: option.splits)
  show "reconnectionAttempts (fst (connect_begin parses url st)) = reconnectionAttempts st"
    using a by (simp add: connect_begin_def disconnectIfConnected_def d console_log_def
        split: option.splits)
  show "reconnectionAttempts (fst (connect_resume st)) = reconnectionAttempts st"
    by (simp add: connect_resume_def Let_def split_def establishConnection_result
        setupEventHandlers_def cleanupSocket_def stopHeartbeat_def startHeartbeat_def
        sock_disconnect_def sock_off_def sock_on_def upd_sock_def io_def new_promise_def
        split: option.splits)
qed

text \<open>When \<open>_ensureConnected\<close> stays suspended, when it returns, and when it throws the
  not-connected error: it returns exactly when the awaited promise (if any) is fulfilled
  and the client holds a connected socket; a rejection of the awaited promise is thrown
  as it is.\<close>

lemma ensureConnected_outcome:
  "ensureConnected aw st = Suspended \<longleftrightarrow> (\<exists>pid. aw = Some pid \<and> promise_state st pid = Pending)"
  "ensureConnected aw st = Returned () \<longleftrightarrow>
     (\<forall>pid. aw = Some pid \<longrightarrow> promise_state st pid = Fulfilled)
     \<and> (\<exists>sid. socket st = Some sid \<and> sock_connected st sid)"
  "aw = Some pid \<Longrightarrow> promise_state st pid = Rejected e \<Longrightarrow> ensureConnected aw st = Thrown e"
  by (auto simp add: ensureConnected_def check_socket_def split: option.splits pstate.splits)

text \<open>An operation that needs the connection opens no socket, creates no promise and
  sets no timer.\<close>

lemma operation_starts_no_connect:
  "length (sockets (snd (send ev d aw st))) = length (sockets st)
   \<and> promises (snd (send ev d aw st)) = promises st
   \<and> timers (snd (send ev d aw st)) = timers st"
  "length (sockets (snd (on ev cb aw st))) = length (sockets st)
   \<and> promises (snd (on ev cb aw st)) = promises st
   \<and> timers (snd (on ev cb aw st)) = timers st"
  "length (sockets (snd (subscribe ev f aw st))) = length (sockets st)
   \<and> promises (snd (subscribe ev f aw st)) = promises st
   \<and> timers (snd (subscribe ev f aw st)) = timers st"
  "length (sockets (snd (unsubscribe ev f aw st))) = length (sockets st)
   \<and> promises (snd (unsubscribe ev f aw st)) = promises st
   \<and> timers (snd (unsubscribe ev f aw st)) = timers st"
  by (simp_all add: send_def on_def subscribe_def unsubscribe_def console_log_def sock_on_def
      upd_sock_def split: outcome.splits option.splits slot.splits)

text \<open>
  Claim C2, at the failing input: a new client, \<open>connect()\<close>, and at once an operation that
  needs the connection. The claim wants the operation to wait for the readiness promise of
  the attempt. When the operation is called, \<open>connect()\<close> is suspended at its first
  \<open>await\<close>: the flag \<open>connecting\<close> is set, but \<open>connectionPromise\<close> is still \<open>null\<close>, so
  \<open>_ensureConnected\<close> waits for no promise. When it continues (\<open>connect()\<close> has by then
  run to its \<open>return\<close>, and the readiness promise 0 it returned is pending), each of
  \<open>send\<close>, \<open>on\<close>, \<open>subscribe\<close> and \<open>unsubscribe\<close> fails with the not-connected error
  (and so it would if it continued before \<open>connect()\<close> does). An operation called only
  after \<open>connect()\<close> has returned does wait for that promise.
\<close>

theorem C2_call_during_connect_fails:
  "snd (connect_begin (\<lambda>u. True) None new_PBUI) = None
   \<and> connecting after_connect_call
   \<and> connectionPromise after_connect_call = None
   \<and> ensureConnected_await after_connect_call = None
   \<and> snd (connect_resume after_connect_call) = Some 0
   \<and> promise_state after_connect_resumed 0 = Pending
   \<and> fst (send ''ping'' JNull (ensureConnected_await after_connect_call) after_connect_resumed) =
       Thrown (Error ''[PBUI] Websocket not connected.'')
   \<and> fst (on ''state-updated'' 1 (ensureConnected_await after_connect_call) after_connect_resumed) =
       Thrown (Error ''[PBUI] Websocket not connected.'')
   \<and> fst (subscribe ''state-updated'' 1 (ensureConnected_await after_connect_call)
        after_connect_resumed) = Thrown (Error ''[PBUI] Websocket not connected.'')
   \<and> fst (unsubscribe ''state-updated'' 1 (ensureConnected_await after_connect_call)
        after_connect_resumed) = Thrown (Error ''[PBUI] Websocket not connected.'')
   \<and> fst (send ''ping'' JNull (ensureConnected_await after_connect_call) after_connect_call) =
       Thrown (Error ''[PBUI] Websocket not connected.'')
   \<and> ensureConnected_await after_connect_resumed = Some 0
   \<and> fst (send ''ping'' JNull (ensureConnected_await after_connect_resumed) after_connect_resumed) =
       Suspended"
  by code_simp

text \<open>The \<open>connect_error\<close> handler of \<open>_establishConnection\<close> schedules nothing, in any
  state.\<close>

lemma run_OnceConnectError_schedules_nothing:
  "timers (run_handler sid e (OnceConnectError pid) st) = timers st
   \<and> reconnectionAttempts (run_handler sid e (OnceConnectError pid) st) = reconnectionAttempts st"
  by (simp add: client_fields remove_handler_def)

text \<open>
  Claim C5, at the failing input: \<open>connect()\<close>, and then a \<open>connect_error\<close> of the
  transport on the socket of the attempt. The claim wants the readiness promise rejected
  and a retry scheduled. When \<open>connect()\<close> returns, \<open>_cleanupSocket()\<close> has already
  removed the handlers of the socket it has just created and dropped the reference. So,
  from any state, the event finds no handler and changes nothing: the promise that
  \<open>connect()\<close> returned stays pending and no retry is scheduled. For a new client: after
  the event the promise 0 is pending, there is no timer, the attempt counter is 0 and the
  client still says it is connecting.
\<close>

theorem C5_connect_error_not_handled:
  "transport_event (length (sockets st)) (ConnectError msg) (fst (connect_resume st)) =
     fst (connect_resume st)
   \<and> snd (connect_resume st) = Some (length (promises st))
   \<and> promise_state (fst (connect_resume st)) (length (promises st)) = Pending
   \<and> timers (fst (connect_resume st)) = timers st
   \<and> snd (connect_resume after_connect_call) = Some 0
   \<and> socket after_connect_resumed = None
   \<and> handlers_of after_connect_resumed 0 ''connect_error'' = []
   \<and> promise_state (transport_event 0 (ConnectError ''timeout'') after_connect_resumed) 0 = Pending
   \<and> timers (transport_event 0 (ConnectError ''timeout'') after_connect_resumed) = []
   \<and> reconnectionAttempts (transport_event 0 (ConnectError ''timeout'') after_connect_resumed) = 0
   \<and> connecting (transport_event 0 (ConnectError ''timeout'') after_connect_resumed)"
proof -
  have general: "transport_event (length (sockets st)) (ConnectError msg) (fst (connect_resume st)) =
      fst (connect_resume st)"
    using connect_resume_drops_socket [of st "''connect_error''"]
    by (simp add: transport_event_def)
  have concrete: "snd (connect_resume after_connect_call) = Some 0
   \<and> socket after_connect_resumed = None
   \<and> handlers_of after_connect_resumed 0 ''connect_error'' = []
   \<and> promise_state (transport_event 0 (ConnectError ''timeout'') after_connect_resumed) 0 = Pending
   \<and> timers (transport_event 0 (ConnectError ''timeout'') after_connect_resumed) = []
   \<and> reconnectionAttempts (transport_event 0 (ConnectError ''timeout'') after_connect_resumed) = 0
   \<and> connecting (transport_event 0 (ConnectError ''timeout'') after_connect_resumed)"
    by code_simp
  from general concrete connect_resume_drops_socket [of st "''connect_error''"] show ?thesis
    by blast
qed

subsection \<open>The listener registry\<close>

lemma ensureConnected_frame:
  assumes "promises st' = promises st" "socket st' = socket st" "sockets st' = sockets st"
  shows "ensureConnected aw st' = ensureConnected aw st"
proof -
  have "sock_connected st' = sock_connected st"
    using assms by (simp add: sock_connected_def fun_eq_iff)
  then have "check_socket st' = check_socket st"
    using assms by (simp add: check_socket_def split: option.splits)
  moreover have "promise_state st' = promise_state st"
    using assms by (simp add: promise_state_def fun_eq_iff)
  ultimately show ?thesis
    by (simp add: ensureConnected_def split: option.splits pstate.splits)
qed

lemma subscribe_connected:
  assumes "ensureConnected aw st = Returned ()" "e \<notin> set object_prototype_names"
  shows "subscribe e f aw st =
     (Returned (),
      if f \<in> set (registered st e)
      then console_log (''[PBUI] Listener already subscribed to event: '' @ e) st
      else console_log (''[PBUI] Subscribed to event: '' @ e)
               (st\<lparr>listeners := (listeners st)(e \<mapsto> registered st e @ [f])\<rparr>))"
proof (cases "listeners st e")
  case None
  with assms show ?thesis
    by (simp add: subscribe_def read_slot_regular registered_def)
next
  case (Some ls)
  with assms show ?thesis
    by (simp add: subscribe_def read_slot_regular registered_def)
qed

lemma subscribe_listeners:
  assumes "ensureConnected aw st = Returned ()" "e \<notin> set object_prototype_names"
  shows "listeners (snd (subscribe e f aw st)) =
          (if f \<in> set (registered st e) then listeners st
           else (listeners st)(e \<mapsto> registered st e @ [f]))"
  by (simp add: subscribe_connected [OF assms] console_log_def)

lemma subscribe_frame:
  assumes "ensureConnected aw st = Returned ()" "e \<notin> set object_prototype_names"
  shows "promises (snd (subscribe e f aw st)) = promises st"
    and "socket (snd (subscribe e f aw st)) = socket st"
    and "sockets (snd (subscribe e f aw st)) = sockets st"
    and "invoked (snd (subscribe e f aw st)) = invoked st"
  by (simp_all add: subscribe_connected [OF assms] console_log_def)

lemma registered_after_subscribe:
  assumes "ensureConnected aw st = Returned ()" "e \<notin> set object_prototype_names"
  shows "registered (snd (subscribe e f aw st)) e =
      (if f \<in> set (registered st e) then registered st e else registered st e @ [f])"
  by (simp add: subscribe_listeners [OF assms] registered_def)

text \<open>\<open>subscribe\<close> keeps every list of the registry free of duplicates.\<close>

lemma subscribe_keeps_distinct:
  assumes "ensureConnected aw st = Returned ()" "e \<notin> set object_prototype_names"
    and "distinct (registered st e')"
  shows "distinct (registered (snd (subscribe e f aw st)) e')"
proof (cases "e' = e")
  case True
  with assms(3) show ?thesis
    by (simp add: registered_after_subscribe [OF assms(1,2)])
next
  case False
  with assms(3) show ?thesis
    by (simp add: subscribe_listeners [OF assms(1,2)] registered_def)
qed

lemma triggerListeners_regular:
  assumes "e \<notin> set object_prototype_names"
  shows "triggerListeners e d st =
      (Inr (), st\<lparr>invoked := invoked st @ map (\<lambda>listener. (listener, d)) (registered st e)\<rparr>)"
proof (cases "listeners st e")
  case None
  with assms show ?thesis
    by (simp add: triggerListeners_def read_slot_regular registered_def)
next
  case (Some ls)
  with assms show ?thesis
    by (simp add: triggerListeners_def read_slot_regular registered_def)
qed

text \<open>
  Claim C7 as stated fails for an event name that \<open>Object.prototype\<close> defines. On a
  connected client with an empty registry, \<open>subscribe("constructor", f)\<close> throws a
  \<open>TypeError\<close>, the first time and the second; the registry has no entry for the event
  afterwards, and a trigger of the event throws as well and calls nobody.
\<close>

theorem C7_subscribe_counterexample:
  "ensureConnected None connected_client = Returned ()
   \<and> registered connected_client ''constructor'' = []
   \<and> fst (subscribe ''constructor'' 1 None connected_client) =
       Thrown (TypeError ''this.listeners[event].includes is not a function'')
   \<and> fst (subscribe ''constructor'' 1 None (snd (subscribe ''constructor'' 1 None connected_client))) =
       Thrown (TypeError ''this.listeners[event].includes is not a function'')
   \<and> count_list (registered
        (snd (subscribe ''constructor'' 1 None (snd (subscribe ''constructor'' 1 None connected_client))))
        ''constructor'') 1 = 0
   \<and> fst (triggerListeners ''constructor'' JNull
        (snd (subscribe ''constructor'' 1 None (snd (subscribe ''constructor'' 1 None connected_client))))) =
       Inl (TypeError ''this.listeners[event].forEach is not a function'')
   \<and> invoked (snd (triggerListeners ''constructor'' JNull
        (snd (subscribe ''constructor'' 1 None (snd (subscribe ''constructor'' 1 None connected_client)))))) = []"
  by code_simp

text \<open>
  Claim C7, amended. Let the event name be none of the property names of
  \<open>Object.prototype\<close>, let the connection check pass, and let the listener \<open>f\<close> be listed at
  most once for the event (\<open>subscribe\<close> keeps it so). After two calls \<open>subscribe(e, f)\<close>
  both have returned normally, the second has left the registry as the first left it,
  \<open>f\<close> is listed exactly once for \<open>e\<close>, and a trigger of \<open>e\<close> calls the listeners of \<open>e\<close>
  in list order with the data, \<open>f\<close> exactly once among them.
\<close>

theorem C7_subscribe_idempotent:
  assumes conn: "ensureConnected aw st = Returned ()"
    and name: "e \<notin> set object_prototype_names"
    and once: "count_list (registered st e) f \<le> 1"
    and s1: "subscribe e f aw st = (r1, st1)"
    and s2: "subscribe e f aw st1 = (r2, st2)"
  shows "r1 = Returned () \<and> r2 = Returned ()
       \<and> listeners st2 = listeners st1
       \<and> count_list (registered st2 e) f = 1
       \<and> triggerListeners e d st2 =
           (Inr (), st2\<lparr>invoked := invoked st2 @ map (\<lambda>listener. (listener, d)) (registered st2 e)\<rparr>)
       \<and> count_list (map fst (drop (length (invoked st2)) (invoked (snd (triggerListeners e d st2))))) f = 1"
proof -
  from s1 have st1: "st1 = snd (subscribe e f aw st)" and r1: "r1 = fst (subscribe e f aw st)"
    by simp_all
  have "ensureConnected aw st1 = ensureConnected aw st"
    unfolding st1 by (rule ensureConnected_frame) (rule subscribe_frame [OF conn name])+
  with conn have conn1: "ensureConnected aw st1 = Returned ()"
    by simp
  from s2 have st2: "st2 = snd (subscribe e f aw st1)" and r2: "r2 = fst (subscribe e f aw st1)"
    by simp_all
  have ret1: "r1 = Returned ()"
    unfolding r1 by (simp add: subscribe_connected [OF conn name])
  have ret2: "r2 = Returned ()"
    unfolding r2 by (simp add: subscribe_connected [OF conn1 name])
  have reg1: "registered st1 e =
      (if f \<in> set (registered st e) then registered st e else registered st e @ [f])"
    unfolding st1 using conn name by (rule registered_after_subscribe)
  then have mem1: "f \<in> set (registered st1 e)"
    by (simp split: if_splits)
  have l2: "listeners st2 = listeners st1"
    unfolding st2 using subscribe_listeners [OF conn1 name, of f] mem1 by simp
  then have reg2: "registered st2 e = registered st1 e"
    by (simp add: registered_def)
  have cnt: "count_list (registered st1 e) f = 1"
  proof (cases "f \<in> set (registered st e)")
    case True
    then have "count_list (registered st e) f \<noteq> 0" by (simp add: count_list_0_iff)
    with once have "count_list (registered st e) f = 1" by arith
    with reg1 True show ?thesis by simp
  next
    case False
    then have "count_list (registered st e) f = 0" by (simp add: count_list_0_iff)
    with reg1 False show ?thesis by simp
  qed
  from cnt reg2 have cnt2: "count_list (registered st2 e) f = 1"
    by simp
  note trig = triggerListeners_regular [OF name, of d st2]
  have "map fst (drop (length (invoked st2)) (invoked (snd (triggerListeners e d st2)))) =
      registered st2 e"
    by (simp add: trig comp_def)
  with cnt2 have calls: "count_list (map fst (drop (length (invoked st2))
      (invoked (snd (triggerListeners e d st2))))) f = 1"
    by simp
  from ret1 ret2 l2 cnt2 trig calls show ?thesis
    by blast
qed

theorem C7_subscribe_idempotent_witness:
  "ensureConnected None connected_client = Returned ()
   \<and> registered connected_client ''state-updated'' = []
   \<and> fst (subscribe ''state-updated'' 1 None
        (snd (subscribe ''state-updated'' 1 None connected_client))) = Returned ()
   \<and> registered (snd (subscribe ''state-updated'' 1 None
        (snd (subscribe ''state-updated'' 1 None connected_client)))) ''state-updated'' = [1]
   \<and> invoked (snd (triggerListeners ''state-updated'' JNull (snd (subscribe ''state-updated'' 1 None
        (snd (subscribe ''state-updated'' 1 None connected_client)))))) = [(1, JNull)]"
proof -
  have a: "ensureConnected None connected_client = Returned ()" by code_simp
  have b: "''state-updated'' \<notin> set object_prototype_names" by code_simp
  have r: "registered connected_client ''state-updated'' = []" by code_simp
  then have c: "count_list (registered connected_client ''state-updated'') 1 \<le> 1" by simp
  have s1: "subscribe ''state-updated'' 1 None connected_client =
      (fst (subscribe ''state-updated'' 1 None connected_client),
       snd (subscribe ''state-updated'' 1 None connected_client))"
    by simp
  have s2: "subscribe ''state-updated'' 1 None (snd (subscribe ''state-updated'' 1 None connected_client)) =
      (fst (subscribe ''state-updated'' 1 None (snd (subscribe ''state-updated'' 1 None connected_client))),
       snd (subscribe ''state-updated'' 1 None (snd (subscribe ''state-updated'' 1 None connected_client))))"
    by simp
  have reg: "registered (snd (subscribe ''state-updated'' 1 None
        (snd (subscribe ''state-updated'' 1 None connected_client)))) ''state-updated'' = [1]"
    by code_simp
  have inv: "invoked (snd (subscribe ''state-updated'' 1 None
        (snd (subscribe ''state-updated'' 1 None connected_client)))) = []"
    by code_simp
  from C7_subscribe_idempotent [OF a b c s1 s2, of JNull] a r reg inv
  show ?thesis by simp
qed

lemma splice1_first_occurrence:
  "x \<in> set xs \<Longrightarrow> splice1 (length (takeWhile (\<lambda>y. y \<noteq> x) xs)) xs = remove1 x xs"
  by (induction xs) (auto simp add: splice1_def)

lemma filter_remove1_other:
  "filter (\<lambda>y. y \<noteq> x) (remove1 x xs) = filter (\<lambda>y. y \<noteq> x) xs"
  by (induction xs) auto

lemma unsubscribe_connected:
  assumes "ensureConnected aw st = Returned ()" "e \<notin> set object_prototype_names"
  shows "unsubscribe e f aw st =
     (Returned (),
      case listeners st e of
        None \<Rightarrow> console_log (''[PBUI] No listeners to remove for event: '' @ e) st
      | Some ls \<Rightarrow>
          if f \<in> set ls
          then console_log (''[PBUI] Unsubscribed from event: '' @ e)
                 (st\<lparr>listeners := (listeners st)(e \<mapsto> remove1 f ls)\<rparr>)
          else console_log (''[PBUI] Listener not found for event: '' @ e) st)"
proof (cases "listeners st e")
  case None
  with assms show ?thesis
    by (simp add: unsubscribe_def read_slot_regular)
next
  case (Some ls)
  with assms show ?thesis
    by (simp add: unsubscribe_def read_slot_regular indexOf_def splice1_first_occurrence)
qed

text \<open>\<open>unsubscribe\<close> keeps every list of the registry free of duplicates, as
  \<open>subscribe\<close> does; the registry of a new client is empty.\<close>

lemma unsubscribe_keeps_distinct:
  assumes "ensureConnected aw st = Returned ()" "e \<notin> set object_prototype_names"
    and "distinct (registered st e')"
  shows "distinct (registered (snd (unsubscribe e f aw st)) e')"
proof (cases "listeners st e")
  case None
  with assms(3) show ?thesis
    by (simp add: unsubscribe_connected [OF assms(1,2)] registered_def console_log_def)
next
  case (Some ls)
  with assms(3) show ?thesis
    by (cases "e' = e")
       (auto simp add: unsubscribe_connected [OF assms(1,2)] registered_def console_log_def)
qed

text \<open>
  Claim C8 as stated fails twice. On a client that is not connected,
  \<open>unsubscribe("state-updated", f)\<close> fails with the not-connected error, although the
  event has no listener list. On a connected client, \<open>unsubscribe("constructor", f)\<close>
  throws a \<open>TypeError\<close>, although the registry has no list for that event either.
\<close>

theorem C8_unsubscribe_counterexample:
  "listeners new_PBUI ''state-updated'' = None
   \<and> fst (unsubscribe ''state-updated'' 1 (ensureConnected_await new_PBUI) new_PBUI) =
       Thrown (Error ''[PBUI] Websocket not connected.'')
   \<and> ensureConnected None connected_client = Returned ()
   \<and> listeners connected_client ''constructor'' = None
   \<and> fst (unsubscribe ''constructor'' 1 None connected_client) =
       Thrown (TypeError ''this.listeners[event].indexOf is not a function'')"
  by code_simp

text \<open>
  Claim C8, amended. Let the connection check pass and let the event name be none of the
  property names of \<open>Object.prototype\<close>. Then \<open>unsubscribe(e, f)\<close> returns normally. If
  \<open>f\<close> is not listed for \<open>e\<close> (or \<open>e\<close> has no list) the registry is unchanged and one line
  is logged. If \<open>f\<close> is listed for \<open>e\<close>, its first entry is removed from the list of \<open>e\<close>.
  In every case the lists of all other events are unchanged and the other listeners of
  \<open>e\<close> keep their order.
\<close>

theorem C8_unsubscribe_frame:
  assumes conn: "ensureConnected aw st = Returned ()"
    and name: "e \<notin> set object_prototype_names"
    and u: "unsubscribe e f aw st = (r, st')"
  shows "r = Returned ()
       \<and> (f \<notin> set (registered st e) \<longrightarrow>
            listeners st' = listeners st \<and> length (console st') = length (console st) + 1)
       \<and> (f \<in> set (registered st e) \<longrightarrow>
            listeners st' = (listeners st)(e \<mapsto> remove1 f (registered st e)))
       \<and> (\<forall>e'. e' \<noteq> e \<longrightarrow> listeners st' e' = listeners st e')
       \<and> filter (\<lambda>g. g \<noteq> f) (registered st' e) = filter (\<lambda>g. g \<noteq> f) (registered st e)"
proof (cases "listeners st e")
  case None
  with u unsubscribe_connected [OF conn name, of f] show ?thesis
    by (auto simp add: registered_def console_log_def)
next
  case (Some ls)
  show ?thesis
  proof (cases "f \<in> set ls")
    case True
    with Some u unsubscribe_connected [OF conn name, of f] show ?thesis
      by (auto simp add: registered_def console_log_def filter_remove1_other)
  next
    case False
    with Some u unsubscribe_connected [OF conn name, of f] show ?thesis
      by (auto simp add: registered_def console_log_def)
  qed
qed

theorem C8_unsubscribe_frame_witness:
  "ensureConnected None connected_client = Returned ()
   \<and> fst (unsubscribe ''state-updated'' 1 None connected_client) = Returned ()
   \<and> listeners (snd (unsubscribe ''state-updated'' 1 None connected_client)) =
       listeners connected_client
   \<and> length (console (snd (unsubscribe ''state-updated'' 1 None connected_client))) =
       length (console connected_client) + 1"
proof -
  have a: "ensureConnected None connected_client = Returned ()" by code_simp
  have b: "''state-updated'' \<notin> set object_prototype_names" by code_simp
  have r: "registered connected_client ''state-updated'' = []" by code_simp
  have u: "unsubscribe ''state-updated'' 1 None connected_client =
      (fst (unsubscribe ''state-updated'' 1 None connected_client),
       snd (unsubscribe ''state-updated'' 1 None connected_client))"
    by simp
  from C8_unsubscribe_frame [OF a b u] a r show ?thesis by simp
qed

end
